theory Spec2Isabelle
  imports Complex_Main
begin

section \<open>JavaScript numbers\<close>

text \<open>
  Every numeric field of the application is a JavaScript number. The model keeps the
  finite values as exact rationals and adds the three special values of IEEE-754
  arithmetic, so that a division by zero is a value of the model (\<open>PInf\<close>, \<open>NInf\<close> or
  \<open>NaN\<close>) as it is in the program, and every comparison with \<open>NaN\<close> is false.
  Rounding error of the finite operations and the sign of zero are not modelled: the
  theorems below are stated through the operations \<open>js_add\<close>, \<open>js_div\<close>, ... themselves.
  Every divisor that can be zero in the modelled code is a count or a percentage, hence
  a non-negative zero.
\<close>

datatype jsnum = Num rat | PInf | NInf | NaN

fun js_lt :: "jsnum \<Rightarrow> jsnum \<Rightarrow> bool" where
  "js_lt (Num a) (Num b) = (a < b)"
| "js_lt (Num a) PInf = True"
| "js_lt NInf (Num b) = True"
| "js_lt NInf PInf = True"
| "js_lt _ _ = False"

fun js_le :: "jsnum \<Rightarrow> jsnum \<Rightarrow> bool" where
  "js_le (Num a) (Num b) = (a \<le> b)"
| "js_le (Num a) PInf = True"
| "js_le NInf (Num b) = True"
| "js_le NInf PInf = True"
| "js_le PInf PInf = True"
| "js_le NInf NInf = True"
| "js_le _ _ = False"

definition js_gt :: "jsnum \<Rightarrow> jsnum \<Rightarrow> bool" where
  "js_gt a b = js_lt b a"

definition js_ge :: "jsnum \<Rightarrow> jsnum \<Rightarrow> bool" where
  "js_ge a b = js_le b a"

fun js_neg :: "jsnum \<Rightarrow> jsnum" where
  "js_neg (Num a) = Num (- a)"
| "js_neg PInf = NInf"
| "js_neg NInf = PInf"
| "js_neg NaN = NaN"

text \<open>\<open>Math.abs\<close>.\<close>

fun js_abs :: "jsnum \<Rightarrow> jsnum" where
  "js_abs (Num a) = Num \<bar>a\<bar>"
| "js_abs PInf = PInf"
| "js_abs NInf = PInf"
| "js_abs NaN = NaN"

fun js_add :: "jsnum \<Rightarrow> jsnum \<Rightarrow> jsnum" where
  "js_add (Num a) (Num b) = Num (a + b)"
| "js_add (Num a) PInf = PInf"
| "js_add (Num a) NInf = NInf"
| "js_add PInf (Num b) = PInf"
| "js_add NInf (Num b) = NInf"
| "js_add PInf PInf = PInf"
| "js_add NInf NInf = NInf"
| "js_add _ _ = NaN"

definition js_sub :: "jsnum \<Rightarrow> jsnum \<Rightarrow> jsnum" where
  "js_sub a b = js_add a (js_neg b)"

text \<open>The infinity with the sign of a non-zero rational.\<close>

definition inf_of_sign :: "rat \<Rightarrow> jsnum" where
  "inf_of_sign a = (if 0 < a then PInf else NInf)"

fun js_mul :: "jsnum \<Rightarrow> jsnum \<Rightarrow> jsnum" where
  "js_mul (Num a) (Num b) = Num (a * b)"
| "js_mul (Num a) PInf = (if a = 0 then NaN else inf_of_sign a)"
| "js_mul (Num a) NInf = (if a = 0 then NaN else inf_of_sign (- a))"
| "js_mul PInf (Num b) = (if b = 0 then NaN else inf_of_sign b)"
| "js_mul NInf (Num b) = (if b = 0 then NaN else inf_of_sign (- b))"
| "js_mul PInf PInf = PInf"
| "js_mul NInf NInf = PInf"
| "js_mul PInf NInf = NInf"
| "js_mul NInf PInf = NInf"
| "js_mul _ _ = NaN"

fun js_div :: "jsnum \<Rightarrow> jsnum \<Rightarrow> jsnum" where
  "js_div (Num a) (Num b) =
     (if b = 0 then (if a = 0 then NaN else inf_of_sign a) else Num (a / b))"
| "js_div (Num a) PInf = Num 0"
| "js_div (Num a) NInf = Num 0"
| "js_div PInf (Num b) = (if 0 \<le> b then PInf else NInf)"
| "js_div NInf (Num b) = (if 0 \<le> b then NInf else PInf)"
| "js_div _ _ = NaN"

text \<open>\<open>Math.round\<close>: the nearest integer, a tie going up.\<close>

fun js_round :: "jsnum \<Rightarrow> jsnum" where
  "js_round (Num a) = Num (of_int \<lfloor>a + 1 / 2\<rfloor>)"
| "js_round x = x"

text \<open>The truth value of a number in a condition: zero and \<open>NaN\<close> are false.\<close>

fun truthy :: "jsnum \<Rightarrow> bool" where
  "truthy (Num a) = (a \<noteq> 0)"
| "truthy NaN = False"
| "truthy _ = True"

text \<open>\<open>args.field && cond(args.field)\<close> on an optional number: an absent field is
  \<open>undefined\<close>, which is false.\<close>

definition opt_and :: "jsnum option \<Rightarrow> (jsnum \<Rightarrow> bool) \<Rightarrow> bool" where
  "opt_and v cond = (case v of None \<Rightarrow> False | Some x \<Rightarrow> truthy x \<and> cond x)"

text \<open>A count (\<open>array.length\<close>) as a number.\<close>

definition num_of_nat :: "nat \<Rightarrow> jsnum" where
  "num_of_nat n = Num (of_nat n)"

text \<open>\<open>xs.reduce((sum, s) => sum + f(s), 0)\<close>.\<close>

definition reduce_sum :: "('a \<Rightarrow> jsnum) \<Rightarrow> 'a list \<Rightarrow> jsnum" where
  "reduce_sum f xs = foldl (\<lambda>sum s. js_add sum (f s)) (Num 0) xs"


section \<open>Stored rows and results\<close>

text \<open>
  What the classifiers compute: a label and a list of recommendation strings. The label
  is a string in the program and stays one here.
\<close>

record classified =
  classification :: string
  recommendations :: "string list"

text \<open>
  A row of \<open>postureSessions\<close> or \<open>gaitSessions\<close>: the fields of the submitted sample
  (kept together as \<open>sample\<close>), the verdict, the owner and the creation time.
\<close>

record 'a session = classified +
  userId :: string
  timestamp :: jsnum
  sample :: 'a

text \<open>What \<open>analyzePosture\<close> and \<open>analyzeGait\<close> return. The identifier of the new row is
  opaque in the program; the model takes the row's position in the table.\<close>

record analysis_result = classified +
  sessionId :: nat
  score :: jsnum

section \<open>Gait classification (analyzeGait, convex/gait.ts)\<close>

record gait_args =
  stepCount :: jsnum
  symmetryScore :: jsnum
  cadence :: jsnum
  strideLength :: "jsnum option"
  gaitSpeed :: "jsnum option"
  leftRightBalance :: jsnum
  analysisType :: string
  rawDataPath :: "string option"
  stancePhase :: "jsnum option"
  swingPhase :: "jsnum option"
  doubleSupportPhase :: "jsnum option"
  heelStrikeForce :: "jsnum option"
  toeOffForce :: "jsnum option"

type_synonym gait_session = "gait_args session"

text \<open>Each block of the handler takes the label and the recommendations so far and
  returns them updated; \<open>push\<close> appends.\<close>

definition push :: "string \<Rightarrow> 'a classified_scheme \<Rightarrow> 'a classified_scheme" where
  "push msg v = v\<lparr>recommendations := recommendations v @ [msg]\<rparr>"

definition gait_symmetry :: "gait_args \<Rightarrow> classified \<Rightarrow> classified" where
  "gait_symmetry args v =
     (if js_lt (symmetryScore args) (Num 70) then
        push ''Significant gait asymmetry detected - consider consulting a healthcare professional''
          (v\<lparr>classification := ''asymmetric''\<rparr>)
      else if js_lt (symmetryScore args) (Num 85) then
        push ''Minor gait irregularities detected - focus on balanced movement''
          (v\<lparr>classification := ''irregular''\<rparr>)
      else v)"

definition gait_balance :: "gait_args \<Rightarrow> classified \<Rightarrow> classified" where
  "gait_balance args v =
     (if js_gt (js_abs (js_sub (leftRightBalance args) (Num 50))) (Num 15) then
        push ''Uneven weight distribution between left and right steps''
          (v\<lparr>classification :=
               (if classification v = ''normal'' then ''irregular'' else classification v)\<rparr>)
      else v)"

definition gait_cadence :: "gait_args \<Rightarrow> classified \<Rightarrow> classified" where
  "gait_cadence args v =
     (if js_lt (cadence args) (Num 100) \<or> js_gt (cadence args) (Num 180) then
        push ''Cadence outside normal range - aim for 120-160 steps per minute'' v
      else v)"

definition gait_stance :: "gait_args \<Rightarrow> classified \<Rightarrow> classified" where
  "gait_stance args v =
     (if opt_and (stancePhase args) (\<lambda>x. js_lt x (Num 55) \<or> js_gt x (Num 70)) then
        push ''Abnormal stance phase duration - may indicate balance issues'' v
      else v)"

definition gait_swing :: "gait_args \<Rightarrow> classified \<Rightarrow> classified" where
  "gait_swing args v =
     (if opt_and (swingPhase args) (\<lambda>x. js_lt x (Num 25) \<or> js_gt x (Num 40)) then
        push ''Abnormal swing phase duration - may indicate mobility limitations'' v
      else v)"

definition gait_force :: "gait_args \<Rightarrow> classified \<Rightarrow> classified" where
  "gait_force args v =
     (case (heelStrikeForce args, toeOffForce args) of
        (Some h, Some t) \<Rightarrow>
          (if truthy h \<and> truthy t then
             (let forceRatio = js_div h t in
              if js_lt forceRatio (Num (8 / 10)) \<or> js_gt forceRatio (Num (12 / 10)) then
                push ''Uneven ground reaction forces - consider gait training'' v
              else v)
           else v)
      | _ \<Rightarrow> v)"

definition gait_speed :: "gait_args \<Rightarrow> classified \<Rightarrow> classified" where
  "gait_speed args v =
     (if opt_and (gaitSpeed args) (\<lambda>x. js_lt x (Num (8 / 10))) then
        push ''Slow gait speed - consider increasing walking pace gradually'' v
      else v)"

definition gait_esp32 :: "gait_args \<Rightarrow> classified \<Rightarrow> classified" where
  "gait_esp32 args v =
     (if analysisType args = ''esp32'' then
        gait_speed args (gait_force args (gait_swing args (gait_stance args v)))
      else v)"

definition gait_default :: "classified \<Rightarrow> classified" where
  "gait_default v =
     (if recommendations v = [] then push ''Normal gait pattern detected!'' v else v)"

definition classify_gait :: "gait_args \<Rightarrow> classified" where
  "classify_gait args =
     gait_default (gait_esp32 args (gait_cadence args (gait_balance args (gait_symmetry args
       \<lparr>classification = ''normal'', recommendations = []\<rparr>))))"

text \<open>The mutation: classify, insert the row at the end of the table, return the verdict
  with the symmetry score. \<open>now\<close> is the reading of \<open>Date.now()\<close>.\<close>

definition analyzeGait ::
  "int \<Rightarrow> gait_args \<Rightarrow> gait_session list \<Rightarrow> analysis_result \<times> gait_session list" where
  "analyzeGait now args db =
     (let v = classify_gait args;
          row = \<lparr>classification = classification v, recommendations = recommendations v,
                 userId = ''anonymous-user'', timestamp = Num (of_int now), sample = args\<rparr>
      in (\<lparr>classification = classification v, recommendations = recommendations v,
           sessionId = length db, score = symmetryScore args\<rparr>,
          db @ [row]))"

section \<open>Posture classification (analyzePosture, the posture module in convex/chat.ts)\<close>

record posture_args =
  forwardHeadAngle :: jsnum
  shoulderTilt :: jsnum
  neckAngle :: jsnum
  spineAlignment :: jsnum
  duration :: jsnum
  sittingPosition :: "string option"
  handFolding :: "bool option"
  kneeling :: "bool option"
  spineAngle :: "jsnum option"
  earToHipAngle :: "jsnum option"
  postureScore :: "jsnum option"
  keypointConfidence :: "jsnum option"
  rawData :: "string option"
  dataPoints :: "jsnum option"

type_synonym posture_session = "posture_args session"

text \<open>\<open>classification === "good" ? "fair" : classification\<close>\<close>

definition fair_if_good :: "classified \<Rightarrow> classified" where
  "fair_if_good v =
     v\<lparr>classification := (if classification v = ''good'' then ''fair'' else classification v)\<rparr>"

text \<open>The nine blocks of the handler, in the order of the source.\<close>

definition posture_sitting :: "posture_args \<Rightarrow> classified \<Rightarrow> classified" where
  "posture_sitting args v =
     (if sittingPosition args = Some ''hunchback'' then
        push ''Correct hunchback posture by sitting up straight and pulling shoulders back''
          (v\<lparr>classification := ''poor''\<rparr>)
      else if sittingPosition args = Some ''reclined'' then
        push ''Adjust to a more upright sitting position'' (fair_if_good v)
      else v)"

definition posture_handFolding :: "posture_args \<Rightarrow> classified \<Rightarrow> classified" where
  "posture_handFolding args v =
     (if handFolding args = Some True then
        push ''Keep your arms relaxed at your sides for better posture'' v
      else v)"

definition posture_kneeling :: "posture_args \<Rightarrow> classified \<Rightarrow> classified" where
  "posture_kneeling args v =
     (if kneeling args = Some True then
        push ''Sit with both feet flat on the ground for proper posture'' v
      else v)"

definition posture_forwardHead :: "posture_args \<Rightarrow> classified \<Rightarrow> classified" where
  "posture_forwardHead args v =
     (if js_gt (forwardHeadAngle args) (Num 15) then
        push ''Reduce forward head posture by adjusting monitor height''
          (v\<lparr>classification := ''poor''\<rparr>)
      else if js_gt (forwardHeadAngle args) (Num 10) then
        push ''Monitor forward head position throughout the day'' (fair_if_good v)
      else v)"

definition posture_shoulderTilt :: "posture_args \<Rightarrow> classified \<Rightarrow> classified" where
  "posture_shoulderTilt args v =
     (if js_gt (js_abs (shoulderTilt args)) (Num 10) then
        push ''Level your shoulders and check workspace ergonomics''
          (v\<lparr>classification := ''poor''\<rparr>)
      else v)"

definition posture_neckAngle :: "posture_args \<Rightarrow> classified \<Rightarrow> classified" where
  "posture_neckAngle args v =
     (if js_gt (neckAngle args) (Num 15) then
        push ''Maintain neutral neck position'' (fair_if_good v)
      else v)"

definition posture_spineAlignment :: "posture_args \<Rightarrow> classified \<Rightarrow> classified" where
  "posture_spineAlignment args v =
     (if js_lt (spineAlignment args) (Num 70) then
        push ''Improve spinal alignment with back support'' (v\<lparr>classification := ''poor''\<rparr>)
      else if js_lt (spineAlignment args) (Num 85) then
        push ''Focus on maintaining good spinal alignment'' (fair_if_good v)
      else v)"

definition posture_postureScore :: "posture_args \<Rightarrow> classified \<Rightarrow> classified" where
  "posture_postureScore args v =
     (if opt_and (postureScore args) (\<lambda>x. js_lt x (Num 60)) then
        push ''Overall posture needs significant improvement'' (v\<lparr>classification := ''poor''\<rparr>)
      else if opt_and (postureScore args) (\<lambda>x. js_lt x (Num 80)) then
        push ''Posture is acceptable but can be improved'' (fair_if_good v)
      else v)"

definition posture_keypointConfidence :: "posture_args \<Rightarrow> classified \<Rightarrow> classified" where
  "posture_keypointConfidence args v =
     (if opt_and (keypointConfidence args) (\<lambda>x. js_lt x (Num 70)) then
        push ''Ensure good lighting and clear view for accurate posture analysis'' v
      else v)"

definition posture_rules :: "(posture_args \<Rightarrow> classified \<Rightarrow> classified) list" where
  "posture_rules =
     [posture_sitting, posture_handFolding, posture_kneeling, posture_forwardHead,
      posture_shoulderTilt, posture_neckAngle, posture_spineAlignment, posture_postureScore,
      posture_keypointConfidence]"

text \<open>The label and the recommendations after the given blocks, run in order from the
  initial \<open>"good"\<close> and the empty list.\<close>

definition run_rules ::
  "(posture_args \<Rightarrow> classified \<Rightarrow> classified) list \<Rightarrow> posture_args \<Rightarrow> classified" where
  "run_rules rules args =
     fold (\<lambda>rule v. rule args v) rules \<lparr>classification = ''good'', recommendations = []\<rparr>"

definition posture_default :: "classified \<Rightarrow> classified" where
  "posture_default v =
     (if recommendations v = [] then
        push ''Excellent posture! Keep maintaining this good posture'' v
      else v)"

definition classify_posture :: "posture_args \<Rightarrow> classified" where
  "classify_posture args = posture_default (run_rules posture_rules args)"

definition analyzePosture ::
  "int \<Rightarrow> posture_args \<Rightarrow> posture_session list \<Rightarrow> analysis_result \<times> posture_session list"
where
  "analyzePosture now args db =
     (let v = classify_posture args;
          row = \<lparr>classification = classification v, recommendations = recommendations v,
                 userId = ''anonymous-user'', timestamp = Num (of_int now), sample = args\<rparr>
      in (\<lparr>classification = classification v, recommendations = recommendations v,
           sessionId = length db,
           score = (if classification v = ''good'' then Num 90
                    else if classification v = ''fair'' then Num 70 else Num 40)\<rparr>,
          db @ [row]))"

text \<open>The rank of a label in the order good, fair, poor.\<close>

definition severity :: "string \<Rightarrow> nat" where
  "severity c = (if c = ''good'' then 0 else if c = ''fair'' then 1 else 2)"

section \<open>Dashboard statistics (getPostureStats in convex/chat.ts, getGaitStats in convex/gait.ts)\<close>

text \<open>
  Both queries read every row of the single user, in creation order; that list is the
  argument \<open>sessions\<close>. \<open>now\<close> is the reading of \<open>Date.now()\<close>, an integer number of
  milliseconds, which the platform holds fixed for the run of a query.
  An entry of the weekly trend carries the start of its day; the program renders that
  instant as a local date string, which the model leaves as the instant.
\<close>

definition day_ms :: int where
  "day_ms = 24 * 60 * 60 * 1000"

record trend_day =
  date :: int

record posture_trend = trend_day +
  score :: jsnum

record gait_trend = trend_day +
  symmetry :: jsnum

record 't stats =
  totalSessions :: nat
  weeklyTrend :: "'t list"

record advanced_stats =
  sittingPositionStats :: "string \<rightharpoonup> nat"
  handFoldingPercentage :: jsnum
  kneelingPercentage :: jsnum
  averagePostureScore :: jsnum
  averageKeypointConfidence :: jsnum

text \<open>The two fields that the empty answer of \<open>getPostureStats\<close> does not have are
  optional.\<close>

record posture_stats = "posture_trend stats" +
  averageScore :: jsnum
  goodPosturePercentage :: jsnum
  averageForwardHead :: "jsnum option"
  improvementRate :: "jsnum option"
  advancedStats :: advanced_stats

record gait_stats = "gait_trend stats" +
  averageSymmetry :: jsnum
  averageCadence :: jsnum
  normalGaitPercentage :: jsnum

text \<open>\<open>sessions.filter(s => s.classification === label).length\<close>\<close>

definition count_label :: "string \<Rightarrow> 'a session list \<Rightarrow> nat" where
  "count_label label sessions = length (filter (\<lambda>s. classification s = label) sessions)"

text \<open>\<open>(part / whole) * 100\<close> on two counts.\<close>

definition ratio100 :: "nat \<Rightarrow> nat \<Rightarrow> jsnum" where
  "ratio100 part whole = js_mul (js_div (num_of_nat part) (num_of_nat whole)) (Num 100)"

text \<open>\<open>s.field || 0\<close> on an optional number.\<close>

definition or_zero :: "jsnum option \<Rightarrow> jsnum" where
  "or_zero v = (case v of None \<Rightarrow> Num 0 | Some x \<Rightarrow> if truthy x then x else Num 0)"

text \<open>\<open>recentSessions.filter(s => s.timestamp >= dayStart && s.timestamp < dayEnd)\<close>
  for the loop index \<open>i\<close>, where \<open>dayEnd\<close> is \<open>dayStart\<close> plus one day.\<close>

definition in_day :: "int \<Rightarrow> 'a session \<Rightarrow> bool" where
  "in_day dayStart s =
     (let dayEnd = dayStart + day_ms
      in js_ge (timestamp s) (Num (of_int dayStart)) \<and>
         js_lt (timestamp s) (Num (of_int dayEnd)))"

definition daySessions :: "int \<Rightarrow> 'a session list \<Rightarrow> nat \<Rightarrow> 'a session list" where
  "daySessions now recentSessions i =
     (let dayStart = now - int i * day_ms
      in filter (in_day dayStart) recentSessions)"

definition recent_sessions :: "int \<Rightarrow> 'a session list \<Rightarrow> 'a session list" where
  "recent_sessions now sessions =
     (let weekAgo = now - 7 * day_ms
      in filter (\<lambda>s. js_gt (timestamp s) (Num (of_int weekAgo))) sessions)"

definition posture_dayScore :: "posture_session list \<Rightarrow> jsnum" where
  "posture_dayScore ds =
     (if length ds > 0 then ratio100 (count_label ''good'' ds) (length ds) else Num 0)"

text \<open>\<open>for (let i = 6; i >= 0; i--)\<close>: the first argument is the number of iterations
  left, so the index of the iteration is one less.\<close>

fun posture_trend_loop ::
  "nat \<Rightarrow> int \<Rightarrow> posture_session list \<Rightarrow> posture_trend list \<Rightarrow> posture_trend list" where
  "posture_trend_loop 0 now recentSessions trend = trend"
| "posture_trend_loop (Suc i) now recentSessions trend =
     posture_trend_loop i now recentSessions
       (trend @
        [\<lparr>date = now - int i * day_ms,
          score = js_round (posture_dayScore (daySessions now recentSessions i))\<rparr>])"

text \<open>The tally of sitting positions: an absent or empty position is skipped. Keys that
  a JavaScript object inherits from its prototype are not modelled.\<close>

definition tally_position :: "posture_session \<Rightarrow> (string \<rightharpoonup> nat) \<Rightarrow> (string \<rightharpoonup> nat)" where
  "tally_position s m =
     (case sittingPosition (sample s) of
        None \<Rightarrow> m
      | Some p \<Rightarrow>
          if p = [] then m
          else m(p \<mapsto> (case m p of None \<Rightarrow> 0 | Some c \<Rightarrow> c) + 1))"

text \<open>The score of one half of the rows.\<close>

definition half_score :: "posture_session list \<Rightarrow> jsnum" where
  "half_score half =
     (if length half > 0 then ratio100 (count_label ''good'' half) (length half) else Num 0)"

definition posture_improvementRate :: "posture_session list \<Rightarrow> jsnum" where
  "posture_improvementRate sessions =
     (let midPoint = length sessions div 2;
          firstHalf = take midPoint sessions;
          secondHalf = drop midPoint sessions;
          firstHalfScore = half_score firstHalf;
          secondHalfScore = half_score secondHalf
      in if length firstHalf > 0 \<and> length secondHalf > 0 then
           js_mul (js_div (js_sub secondHalfScore firstHalfScore) firstHalfScore) (Num 100)
         else Num 0)"

definition getPostureStats :: "int \<Rightarrow> posture_session list \<Rightarrow> posture_stats" where
  "getPostureStats now sessions =
     (if length sessions = 0 then
        \<lparr>totalSessions = 0, weeklyTrend = [],
         averageScore = Num 0, goodPosturePercentage = Num 0,
         averageForwardHead = None, improvementRate = None,
         advancedStats =
           \<lparr>sittingPositionStats = Map.empty, handFoldingPercentage = Num 0,
            kneelingPercentage = Num 0, averagePostureScore = Num 0,
            averageKeypointConfidence = Num 0\<rparr>\<rparr>
      else
        (let goodSessions = count_label ''good'' sessions;
             meanForwardHead =
               js_div (reduce_sum (\<lambda>s. forwardHeadAngle (sample s)) sessions)
                 (num_of_nat (length sessions));
             handFoldingSessions =
               length (filter (\<lambda>s. handFolding (sample s) = Some True) sessions);
             kneelingSessions =
               length (filter (\<lambda>s. kneeling (sample s) = Some True) sessions);
             sessionsWithPostureScore =
               filter (\<lambda>s. postureScore (sample s) \<noteq> None) sessions;
             sessionsWithKeypointConfidence =
               filter (\<lambda>s. keypointConfidence (sample s) \<noteq> None) sessions;
             meanPostureScore =
               (if length sessionsWithPostureScore > 0 then
                  js_div (reduce_sum (\<lambda>s. or_zero (postureScore (sample s)))
                            sessionsWithPostureScore)
                    (num_of_nat (length sessionsWithPostureScore))
                else Num 0);
             meanKeypointConfidence =
               (if length sessionsWithKeypointConfidence > 0 then
                  js_div (reduce_sum (\<lambda>s. or_zero (keypointConfidence (sample s)))
                            sessionsWithKeypointConfidence)
                    (num_of_nat (length sessionsWithKeypointConfidence))
                else Num 0)
         in \<lparr>totalSessions = length sessions,
             weeklyTrend = posture_trend_loop 7 now (recent_sessions now sessions) [],
             averageScore = js_round (ratio100 goodSessions (length sessions)),
             goodPosturePercentage = js_round (ratio100 goodSessions (length sessions)),
             averageForwardHead =
               Some (js_div (js_round (js_mul meanForwardHead (Num 10))) (Num 10)),
             improvementRate = Some (js_round (posture_improvementRate sessions)),
             advancedStats =
               \<lparr>sittingPositionStats = fold tally_position sessions Map.empty,
                handFoldingPercentage =
                  js_round (ratio100 handFoldingSessions (length sessions)),
                kneelingPercentage = js_round (ratio100 kneelingSessions (length sessions)),
                averagePostureScore = js_round meanPostureScore,
                averageKeypointConfidence = js_round meanKeypointConfidence\<rparr>\<rparr>))"

definition gait_daySymmetry :: "gait_session list \<Rightarrow> jsnum" where
  "gait_daySymmetry ds =
     (if length ds > 0 then
        js_div (reduce_sum (\<lambda>s. symmetryScore (sample s)) ds) (num_of_nat (length ds))
      else Num 0)"

fun gait_trend_loop ::
  "nat \<Rightarrow> int \<Rightarrow> gait_session list \<Rightarrow> gait_trend list \<Rightarrow> gait_trend list" where
  "gait_trend_loop 0 now recentSessions trend = trend"
| "gait_trend_loop (Suc i) now recentSessions trend =
     gait_trend_loop i now recentSessions
       (trend @
        [\<lparr>date = now - int i * day_ms,
          symmetry = js_round (gait_daySymmetry (daySessions now recentSessions i))\<rparr>])"

definition getGaitStats :: "int \<Rightarrow> gait_session list \<Rightarrow> gait_stats" where
  "getGaitStats now sessions =
     (if length sessions = 0 then
        \<lparr>totalSessions = 0, weeklyTrend = [],
         averageSymmetry = Num 0, averageCadence = Num 0, normalGaitPercentage = Num 0\<rparr>
      else
        (let normalSessions = count_label ''normal'' sessions;
             meanSymmetry =
               js_div (reduce_sum (\<lambda>s. symmetryScore (sample s)) sessions)
                 (num_of_nat (length sessions));
             meanCadence =
               js_div (reduce_sum (\<lambda>s. cadence (sample s)) sessions)
                 (num_of_nat (length sessions))
         in \<lparr>totalSessions = length sessions,
             weeklyTrend = gait_trend_loop 7 now (recent_sessions now sessions) [],
             averageSymmetry = js_round meanSymmetry,
             averageCadence = js_round meanCadence,
             normalGaitPercentage = js_round (ratio100 normalSessions (length sessions))\<rparr>))"

section \<open>Report statistics (generateReport, convex/reports.ts)\<close>


record posture_analysis =
  sessionsAnalyzed :: nat
  goodSessions :: nat
  fairSessions :: nat
  poorSessions :: nat
  avgForwardHead :: jsnum
  avgShoulderTilt :: jsnum
  avgSpineAlignment :: jsnum
  avgPostureScore :: jsnum
  handFoldingSessions :: nat
  kneelingSessions :: nat
  avgKeypointConfidence :: jsnum
  improvementTrend :: jsnum

record gait_analysis =
  gaitSessionsAnalyzed :: nat
  normalSessions :: nat
  asymmetricSessions :: nat
  irregularSessions :: nat
  avgSymmetry :: jsnum
  avgCadence :: jsnum
  avgStrideLength :: jsnum
  avgLeftRightBalance :: jsnum
  esp32Sessions :: nat
  avgStancePhase :: jsnum
  avgSwingPhase :: jsnum
  symmetryImprovement :: jsnum









section \<open>Sample inputs\<close>

text \<open>A posture sample that no rule flags, and the gait sample of the motion scenario.
  Tables for the concrete evaluations below are built from them by the two mutations.\<close>

definition good_sample :: posture_args where
  "good_sample =
     \<lparr>forwardHeadAngle = Num 5, shoulderTilt = Num 2, neckAngle = Num 5,
      spineAlignment = Num 90, duration = Num 60, sittingPosition = None,
      handFolding = None, kneeling = None, spineAngle = None, earToHipAngle = None,
      postureScore = None, keypointConfidence = None, rawData = None, dataPoints = None\<rparr>"



definition zero_score_sample :: posture_args where
  "zero_score_sample = good_sample\<lparr>postureScore := Some (Num 0)\<rparr>"

definition scored_sample :: posture_args where
  "scored_sample = good_sample\<lparr>postureScore := Some (Num 85)\<rparr>"

definition normal_sample :: gait_args where
  "normal_sample =
     \<lparr>stepCount = Num 100, symmetryScore = Num 92, cadence = Num 130, strideLength = None,
      gaitSpeed = None, leftRightBalance = Num 50, analysisType = ''motion'',
      rawDataPath = None, stancePhase = None, swingPhase = None,
      doubleSupportPhase = None, heelStrikeForce = None, toeOffForce = None\<rparr>"

text \<open>
  Tables as the mutations leave them. The clock of the evaluations reads ten days,
  864000000 ms: \<open>stale_table\<close> holds one posture row stored six and a half days earlier,
  \<open>fresh_posture_table\<close> and \<open>fresh_gait_table\<close> one row stored twelve hours earlier,
  \<open>poor_then_good\<close> a poor row followed by a good one, and \<open>unreal_then_ten\<close> a row with
  a forward head angle of 35 followed by ten good rows.
\<close>

definition stale_table :: "posture_session list" where
  "stale_table = snd (analyzePosture 302400000 good_sample [])"

definition fresh_posture_table :: "posture_session list" where
  "fresh_posture_table = snd (analyzePosture 820800000 scored_sample [])"

definition fresh_gait_table :: "gait_session list" where
  "fresh_gait_table = snd (analyzeGait 820800000 normal_sample [])"




definition normal_row :: gait_session where
  "normal_row = last (snd (analyzeGait 1 normal_sample []))"

section \<open>The gait classifier\<close>

lemma classification_push [simp]: "classification (push m v) = classification v"
  by (simp add: push_def)

lemma classification_gait_cadence [simp]:
  "classification (gait_cadence args v) = classification v"
  by (simp add: gait_cadence_def)

lemma classification_gait_esp32 [simp]:
  "classification (gait_esp32 args v) = classification v"
  by (simp add: gait_esp32_def gait_speed_def gait_force_def gait_swing_def gait_stance_def
      Let_def split: option.splits)

lemma classification_gait_default [simp]:
  "classification (gait_default v) = classification v"
  by (simp add: gait_default_def)

lemma gait_balance_keeps:
  "classification v \<noteq> ''normal'' \<Longrightarrow> classification (gait_balance args v) = classification v"
  by (simp add: gait_balance_def)

lemma gait_symmetry_asymmetric:
  "js_lt (symmetryScore args) (Num 70) \<Longrightarrow>
   classification (gait_symmetry args v) = ''asymmetric''"
  by (simp add: gait_symmetry_def)

text \<open>
  C2. A gait sample whose symmetry score is below 70 is classified \<open>"asymmetric"\<close>,
  whatever its other fields are: the label returned by \<open>analyzeGait\<close> and the label of
  the row it stores are both \<open>"asymmetric"\<close>. The balance block changes only the label
  \<open>"normal"\<close>, and no later block assigns the label.
\<close>

theorem analyzeGait_asymmetric:
  assumes "js_lt (symmetryScore args) (Num 70)"
  shows "classification (fst (analyzeGait now args db)) = ''asymmetric'' \<and>
         classification (last (snd (analyzeGait now args db))) = ''asymmetric''"
proof -
  have "classification (classify_gait args) = ''asymmetric''"
    unfolding classify_gait_def
    by (simp add: gait_balance_keeps gait_symmetry_asymmetric [OF assms])
  then show ?thesis
    by (simp add: analyzeGait_def Let_def)
qed

text \<open>An unbalanced, slow sensor sample with every optional block firing.\<close>

theorem analyzeGait_asymmetric_witness:
  "js_lt (Num 65) (Num 70) \<and>
   classification (fst (analyzeGait 0
     \<lparr>stepCount = Num 100, symmetryScore = Num 65, cadence = Num 90, strideLength = None,
      gaitSpeed = Some (Num (1 / 2)), leftRightBalance = Num 80, analysisType = ''esp32'',
      rawDataPath = None, stancePhase = Some (Num 80), swingPhase = Some (Num 20),
      doubleSupportPhase = None, heelStrikeForce = Some (Num 3), toeOffForce = Some (Num 1)\<rparr>
     [])) = ''asymmetric''"
  using analyzeGait_asymmetric [of
     "\<lparr>stepCount = Num 100, symmetryScore = Num 65, cadence = Num 90, strideLength = None,
      gaitSpeed = Some (Num (1 / 2)), leftRightBalance = Num 80, analysisType = ''esp32'',
      rawDataPath = None, stancePhase = Some (Num 80), swingPhase = Some (Num 20),
      doubleSupportPhase = None, heelStrikeForce = Some (Num 3), toeOffForce = Some (Num 1)\<rparr>"
     0 "[]"]
  by simp

text \<open>
  C9. The gait sample with symmetry score 92, cadence 130, left-right balance 50 and
  analysis type \<open>"motion"\<close>, with any step count and no optional field, is classified
  \<open>"normal"\<close> and gets the single recommendation \<open>"Normal gait pattern detected!"\<close>.
\<close>

theorem analyzeGait_motion_scenario:
  "fst (analyzeGait now
     \<lparr>stepCount = n, symmetryScore = Num 92, cadence = Num 130, strideLength = None,
      gaitSpeed = None, leftRightBalance = Num 50, analysisType = ''motion'',
      rawDataPath = None, stancePhase = None, swingPhase = None,
      doubleSupportPhase = None, heelStrikeForce = None, toeOffForce = None\<rparr> db)
   = \<lparr>classification = ''normal'', recommendations = [''Normal gait pattern detected!''],
      sessionId = length db, analysis_result.score = Num 92\<rparr>"
  by (simp add: analyzeGait_def classify_gait_def gait_default_def gait_esp32_def
      gait_cadence_def gait_balance_def gait_symmetry_def push_def js_gt_def js_sub_def Let_def)

section \<open>The posture classifier\<close>

lemma severity_simps [simp]:
  "severity ''good'' = 0" "severity ''fair'' = 1" "severity ''poor'' = 2"
  by (simp_all add: severity_def)

lemma fair_if_good_cases:
  "classification v \<in> {''good'', ''fair'', ''poor''} \<Longrightarrow>
   classification (fair_if_good v) \<in> {''good'', ''fair'', ''poor''} \<and>
   severity (classification v) \<le> severity (classification (fair_if_good v))"
  by (auto simp: fair_if_good_def)

text \<open>Each of the nine blocks keeps the label among the three and never lowers its rank.\<close>

lemma posture_rule_downgrades:
  assumes "rule \<in> set posture_rules"
    and "classification v \<in> {''good'', ''fair'', ''poor''}"
  shows "classification (rule args v) \<in> {''good'', ''fair'', ''poor''} \<and>
         severity (classification v) \<le> severity (classification (rule args v))"
proof -
  note fg = fair_if_good_cases [OF assms(2)]
  from assms(1) consider
      "rule = posture_sitting" | "rule = posture_handFolding" | "rule = posture_kneeling"
    | "rule = posture_forwardHead" | "rule = posture_shoulderTilt" | "rule = posture_neckAngle"
    | "rule = posture_spineAlignment" | "rule = posture_postureScore"
    | "rule = posture_keypointConfidence"
    by (auto simp: posture_rules_def)
  then show ?thesis
  proof cases
    case 1 with assms(2) fg show ?thesis by (auto simp: posture_sitting_def)
  next
    case 2 with assms(2) show ?thesis by (auto simp: posture_handFolding_def)
  next
    case 3 with assms(2) show ?thesis by (auto simp: posture_kneeling_def)
  next
    case 4 with assms(2) fg show ?thesis by (auto simp: posture_forwardHead_def)
  next
    case 5 with assms(2) show ?thesis by (auto simp: posture_shoulderTilt_def)
  next
    case 6 with assms(2) fg show ?thesis by (auto simp: posture_neckAngle_def)
  next
    case 7 with assms(2) fg show ?thesis by (auto simp: posture_spineAlignment_def)
  next
    case 8 with assms(2) fg show ?thesis by (auto simp: posture_postureScore_def)
  next
    case 9 with assms(2) show ?thesis by (auto simp: posture_keypointConfidence_def)
  qed
qed

lemma fold_rules_downgrade:
  "set rules \<subseteq> set posture_rules \<Longrightarrow> classification v \<in> {''good'', ''fair'', ''poor''} \<Longrightarrow>
   classification (fold (\<lambda>rule v. rule args v) rules v) \<in> {''good'', ''fair'', ''poor''} \<and>
   severity (classification v)
     \<le> severity (classification (fold (\<lambda>rule v. rule args v) rules v))"
proof (induction rules arbitrary: v)
  case Nil
  then show ?case by simp
next
  case (Cons r rules)
  from Cons.prems have r: "r \<in> set posture_rules" and rs: "set rules \<subseteq> set posture_rules"
    by auto
  note step = posture_rule_downgrades [OF r Cons.prems(2), of args]
  from Cons.IH [OF rs, of "r args v"] step show ?case
    by (simp only: fold_simps) (metis le_trans)
qed

text \<open>The blocks up to \<open>j\<close> are the blocks up to \<open>i\<close> followed by the blocks between.\<close>

lemma run_rules_split:
  assumes "i \<le> j"
  shows "run_rules (take j posture_rules) args =
         fold (\<lambda>rule v. rule args v) (drop i (take j posture_rules))
           (run_rules (take i posture_rules) args)"
proof -
  have "take j posture_rules = take i posture_rules @ drop i (take j posture_rules)"
    using assms by (metis append_take_drop_id min.absorb1 take_take)
  then have "run_rules (take j posture_rules) args =
      run_rules (take i posture_rules @ drop i (take j posture_rules)) args"
    by simp
  then show ?thesis by (simp only: run_rules_def fold_append o_apply)
qed

lemma run_rules_label:
  "classification (run_rules (take i posture_rules) args) \<in> {''good'', ''fair'', ''poor''}"
proof -
  have "set (take i posture_rules) \<subseteq> set posture_rules" by (rule set_take_subset)
  from fold_rules_downgrade [OF this, of "\<lparr>classification = ''good'', recommendations = []\<rparr>" args]
  show ?thesis by (simp add: run_rules_def)
qed

lemma severity_poor:
  "c \<in> {''good'', ''fair'', ''poor''} \<Longrightarrow> (severity c = 2) = (c = ''poor'')"
  by auto

lemma classification_posture_default [simp]:
  "classification (posture_default v) = classification v"
  by (simp add: posture_default_def)

text \<open>
  C1. For every posture sample, the label of \<open>analyzePosture\<close> is the label after the
  nine blocks run in order from \<open>"good"\<close>. Along the cascade the label stays one of
  good, fair, poor and its rank never decreases: for any two points \<open>i \<le> j\<close> of the
  cascade the rank after \<open>i\<close> blocks is at most the rank after \<open>j\<close> blocks, so a label that
  is \<open>"poor"\<close> after \<open>i\<close> blocks is \<open>"poor"\<close> after \<open>j\<close> blocks.
\<close>

theorem posture_cascade_never_improves:
  assumes "i \<le> j"
  shows "classification (run_rules (take 0 posture_rules) args) = ''good'' \<and>
         severity (classification (run_rules (take i posture_rules) args))
           \<le> severity (classification (run_rules (take j posture_rules) args)) \<and>
         (classification (run_rules (take i posture_rules) args) = ''poor'' \<longrightarrow>
          classification (run_rules (take j posture_rules) args) = ''poor'') \<and>
         classification (run_rules (take j posture_rules) args) \<in> {''good'', ''fair'', ''poor''} \<and>
         classification (fst (analyzePosture now args db))
           = classification (run_rules (take (length posture_rules) posture_rules) args)"
proof -
  let ?ci = "classification (run_rules (take i posture_rules) args)"
  let ?cj = "classification (run_rules (take j posture_rules) args)"
  have start: "classification (run_rules (take 0 posture_rules) args) = ''good''"
    by (simp add: run_rules_def)
  have li: "?ci \<in> {''good'', ''fair'', ''poor''}" and lj: "?cj \<in> {''good'', ''fair'', ''poor''}"
    by (rule run_rules_label)+
  have sub: "set (drop i (take j posture_rules)) \<subseteq> set posture_rules"
    by (meson set_drop_subset set_take_subset subset_trans)
  have mono: "severity ?ci \<le> severity ?cj"
    using fold_rules_downgrade [OF sub li, of args] run_rules_split [OF assms, of args]
    by simp
  have poor: "?ci = ''poor'' \<longrightarrow> ?cj = ''poor''"
  proof
    assume "?ci = ''poor''"
    then have "2 \<le> severity ?cj" using mono by simp
    moreover have "severity ?cj \<le> 2" by (simp add: severity_def)
    ultimately have "severity ?cj = 2" by simp
    then show "?cj = ''poor''" using severity_poor [OF lj] by simp
  qed
  have final: "classification (fst (analyzePosture now args db))
           = classification (run_rules (take (length posture_rules) posture_rules) args)"
    by (simp add: analyzePosture_def classify_posture_def Let_def)
  from start mono poor lj final show ?thesis by blast
qed

text \<open>A forward head angle of 20 makes the label poor at the fourth block; it is still
  poor after the ninth.\<close>

theorem posture_cascade_never_improves_witness:
  "(4::nat) \<le> 9 \<and>
   classification (run_rules (take 4 posture_rules)
     (good_sample\<lparr>forwardHeadAngle := Num 20\<rparr>)) = ''poor'' \<and>
   classification (run_rules (take 9 posture_rules)
     (good_sample\<lparr>forwardHeadAngle := Num 20\<rparr>)) = ''poor'' \<and>
   classification (fst (analyzePosture 0 (good_sample\<lparr>forwardHeadAngle := Num 20\<rparr>) []))
     = ''poor''"
proof -
  have le: "(4::nat) \<le> 9" by simp
  have four: "classification (run_rules (take 4 posture_rules)
     (good_sample\<lparr>forwardHeadAngle := Num 20\<rparr>)) = ''poor''"
    by (simp add: run_rules_def posture_rules_def posture_sitting_def posture_handFolding_def
        posture_kneeling_def posture_forwardHead_def good_sample_def js_gt_def)
  have nine: "length posture_rules = 9" by (simp add: posture_rules_def)
  from posture_cascade_never_improves [OF le, of "good_sample\<lparr>forwardHeadAngle := Num 20\<rparr>" 0 "[]"]
    four le nine show ?thesis by simp
qed

section \<open>Evaluating the sample inputs\<close>

lemmas posture_rule_defs =
  run_rules_def posture_rules_def posture_sitting_def posture_handFolding_def
  posture_kneeling_def posture_forwardHead_def posture_shoulderTilt_def posture_neckAngle_def
  posture_spineAlignment_def posture_postureScore_def posture_keypointConfidence_def
  posture_default_def fair_if_good_def opt_and_def js_gt_def push_def

lemma classify_good_sample:
  "classify_posture good_sample =
     \<lparr>classification = ''good'',
      recommendations = [''Excellent posture! Keep maintaining this good posture'']\<rparr>"
  by (simp add: classify_posture_def posture_rule_defs good_sample_def)



lemma classify_scored_sample:
  "classify_posture scored_sample =
     \<lparr>classification = ''good'',
      recommendations = [''Excellent posture! Keep maintaining this good posture'']\<rparr>"
  by (simp add: classify_posture_def posture_rule_defs scored_sample_def good_sample_def)

lemma classify_zero_score_sample:
  "classify_posture zero_score_sample =
     \<lparr>classification = ''good'',
      recommendations = [''Excellent posture! Keep maintaining this good posture'']\<rparr>"
  by (simp add: classify_posture_def posture_rule_defs zero_score_sample_def good_sample_def)

lemma classify_normal_sample:
  "classify_gait normal_sample =
     \<lparr>classification = ''normal'', recommendations = [''Normal gait pattern detected!'']\<rparr>"
  by (simp add: classify_gait_def gait_default_def gait_esp32_def gait_cadence_def
      gait_balance_def gait_symmetry_def push_def js_gt_def js_sub_def normal_sample_def)

lemma stale_table_eq:
  "stale_table =
     [\<lparr>classification = ''good'',
       recommendations = [''Excellent posture! Keep maintaining this good posture''],
       userId = ''anonymous-user'', timestamp = Num 302400000, sample = good_sample\<rparr>]"
  by (simp add: stale_table_def analyzePosture_def classify_good_sample Let_def)

lemma fresh_posture_table_eq:
  "fresh_posture_table =
     [\<lparr>classification = ''good'',
       recommendations = [''Excellent posture! Keep maintaining this good posture''],
       userId = ''anonymous-user'', timestamp = Num 820800000, sample = scored_sample\<rparr>]"
  by (simp add: fresh_posture_table_def analyzePosture_def classify_scored_sample Let_def)

lemma fresh_gait_table_eq:
  "fresh_gait_table =
     [\<lparr>classification = ''normal'', recommendations = [''Normal gait pattern detected!''],
       userId = ''anonymous-user'', timestamp = Num 820800000, sample = normal_sample\<rparr>]"
  by (simp add: fresh_gait_table_def analyzeGait_def classify_normal_sample Let_def)




lemma normal_row_eq:
  "normal_row =
     \<lparr>classification = ''normal'', recommendations = [''Normal gait pattern detected!''],
      userId = ''anonymous-user'', timestamp = Num 1, sample = normal_sample\<rparr>"
  by (simp add: normal_row_def analyzeGait_def classify_normal_sample Let_def)

section \<open>The overall posture score\<close>

text \<open>
  What the eighth block does with a supplied score that is neither zero nor \<open>NaN\<close>: below
  60 the label becomes poor; from 60 and below 80 a good label becomes fair and any other
  label stays.
\<close>

lemma posture_postureScore_truthy:
  assumes "postureScore args = Some x" and "truthy x"
  shows "js_lt x (Num 60) \<Longrightarrow> classification (posture_postureScore args v) = ''poor''"
    and "\<not> js_lt x (Num 60) \<Longrightarrow> js_lt x (Num 80) \<Longrightarrow> classification v = ''good'' \<Longrightarrow>
           classification (posture_postureScore args v) = ''fair''"
    and "\<not> js_lt x (Num 60) \<Longrightarrow> js_lt x (Num 80) \<Longrightarrow> classification v \<noteq> ''good'' \<Longrightarrow>
           classification (posture_postureScore args v) = classification v"
  using assms by (simp_all add: posture_postureScore_def opt_and_def fair_if_good_def push_def)

text \<open>
  C8. A posture sample that supplies the overall posture score 0, which is below 60, and
  that no other block flags is not classified poor: the block tests the score for truth
  before it compares it, and zero is false. \<open>analyzePosture\<close> answers \<open>"good"\<close>, with the
  recommendation for excellent posture and the score 90.
\<close>

theorem analyzePosture_zero_score:
  "fst (analyzePosture now zero_score_sample db) =
     \<lparr>classification = ''good'',
      recommendations = [''Excellent posture! Keep maintaining this good posture''],
      sessionId = length db, analysis_result.score = Num 90\<rparr> \<and>
   postureScore zero_score_sample = Some (Num 0) \<and> js_lt (Num 0) (Num 60)"
proof -
  have "postureScore zero_score_sample = Some (Num 0)"
    by (simp add: zero_score_sample_def)
  then show ?thesis
    by (simp add: analyzePosture_def classify_zero_score_sample Let_def)
qed

section \<open>The dashboard statistics\<close>

text \<open>The floor of a quotient of two numerals, for evaluating \<open>js_round\<close>.\<close>

lemma floor_rat_numeral [simp]:
  "\<lfloor>(numeral a :: rat) / numeral b\<rfloor> = numeral a div numeral b"
  using floor_divide_of_int_eq [of "numeral a" "numeral b", where ?'a = rat] by simp

lemma floor_rat_half [simp]: "\<lfloor>(1::rat) / 2\<rfloor> = 0"
  by (simp add: floor_unique)

text \<open>
  C7. On an empty list of rows both queries answer at once, with zero for every number
  they report and an empty weekly trend (and an empty tally of sitting positions). The
  functions have no failing branch.
\<close>

theorem stats_of_no_sessions:
  "getPostureStats now [] =
     \<lparr>totalSessions = 0, weeklyTrend = [], averageScore = Num 0,
      goodPosturePercentage = Num 0, averageForwardHead = None, improvementRate = None,
      advancedStats =
        \<lparr>sittingPositionStats = Map.empty, handFoldingPercentage = Num 0,
         kneelingPercentage = Num 0, averagePostureScore = Num 0,
         averageKeypointConfidence = Num 0\<rparr>\<rparr> \<and>
   getGaitStats now [] =
     \<lparr>totalSessions = 0, weeklyTrend = [], averageSymmetry = Num 0,
      averageCadence = Num 0, normalGaitPercentage = Num 0\<rparr>"
  by (simp add: getPostureStats_def getGaitStats_def)







subsection \<open>The improvement rate\<close>






subsection \<open>The weekly trend\<close>

lemma day_ms_pos: "0 < day_ms"
  by (simp add: day_ms_def)

text \<open>A row in the window of one of the seven iterations is newer than a week, so the
  filter on the last week removes no row of any window.\<close>

lemma in_day_recent:
  assumes "in_day (now - int i * day_ms) s" and "i < 7"
  shows "js_gt (timestamp s) (Num (of_int (now - 7 * day_ms)))"
proof -
  have lt: "now - 7 * day_ms < now - int i * day_ms"
    using assms(2) day_ms_pos by simp
  from assms(1) have ge: "js_ge (timestamp s) (Num (of_int (now - int i * day_ms)))"
    by (simp add: in_day_def Let_def)
  show ?thesis
  proof (cases "timestamp s")
    case (Num q)
    with ge have "of_int (now - int i * day_ms) \<le> q" by (simp add: js_ge_def)
    moreover from lt have "(of_int (now - 7 * day_ms) :: rat) < of_int (now - int i * day_ms)"
      by (simp only: of_int_less_iff)
    ultimately have "of_int (now - 7 * day_ms) < q" by (rule less_le_trans [rotated])
    with Num show ?thesis by (simp add: js_gt_def)
  next
    case PInf then show ?thesis by (simp add: js_gt_def)
  next
    case NInf with ge show ?thesis by (simp add: js_ge_def)
  next
    case NaN with ge show ?thesis by (simp add: js_ge_def)
  qed
qed

lemma daySessions_recent:
  assumes "i < 7"
  shows "daySessions now (recent_sessions now sessions) i
           = filter (in_day (now - int i * day_ms)) sessions"
proof -
  have "filter (in_day (now - int i * day_ms))
          (filter (\<lambda>s. js_gt (timestamp s) (Num (of_int (now - 7 * day_ms)))) sessions)
        = filter (in_day (now - int i * day_ms)) sessions"
    unfolding filter_filter
    by (rule filter_cong [OF refl]) (use in_day_recent [OF _ assms] in blast)
  then show ?thesis by (simp add: daySessions_def recent_sessions_def Let_def)
qed

text \<open>The seven iterations of the two loops, written out.\<close>

lemma posture_trend_loop_7:
  "posture_trend_loop 7 now rs [] =
     map (\<lambda>i. \<lparr>date = now - int i * day_ms,
                posture_trend.score = js_round (posture_dayScore (daySessions now rs i))\<rparr>)
       [6, 5, 4, 3, 2, 1, 0]"
  by (simp add: eval_nat_numeral)

lemma gait_trend_loop_7:
  "gait_trend_loop 7 now rs [] =
     map (\<lambda>i. \<lparr>date = now - int i * day_ms,
                symmetry = js_round (gait_daySymmetry (daySessions now rs i))\<rparr>)
       [6, 5, 4, 3, 2, 1, 0]"
  by (simp add: eval_nat_numeral)

lemma posture_weeklyTrend_nonempty:
  "ps \<noteq> [] \<Longrightarrow>
   weeklyTrend (getPostureStats now ps) = posture_trend_loop 7 now (recent_sessions now ps) []"
  by (simp add: getPostureStats_def Let_def)

lemma gait_weeklyTrend_nonempty:
  "gs \<noteq> [] \<Longrightarrow>
   weeklyTrend (getGaitStats now gs) = gait_trend_loop 7 now (recent_sessions now gs) []"
  by (simp add: getGaitStats_def Let_def)

lemma posture_weeklyTrend_entries:
  assumes "ps \<noteq> []"
  shows "weeklyTrend (getPostureStats now ps) =
           map (\<lambda>i. \<lparr>date = now - int i * day_ms,
                      posture_trend.score =
                        js_round (posture_dayScore (filter (in_day (now - int i * day_ms)) ps))\<rparr>)
             [6, 5, 4, 3, 2, 1, 0]"
  by (simp add: posture_weeklyTrend_nonempty [OF assms] posture_trend_loop_7
      daySessions_recent del: js_round.simps)

lemma gait_weeklyTrend_entries:
  assumes "gs \<noteq> []"
  shows "weeklyTrend (getGaitStats now gs) =
           map (\<lambda>i. \<lparr>date = now - int i * day_ms,
                      symmetry =
                        js_round (gait_daySymmetry (filter (in_day (now - int i * day_ms)) gs))\<rparr>)
             [6, 5, 4, 3, 2, 1, 0]"
  by (simp add: gait_weeklyTrend_nonempty [OF assms] gait_trend_loop_7
      daySessions_recent del: js_round.simps)



text \<open>The tables with one row stored twelve hours before the query: the row falls in the
  window of the iteration with index 1.\<close>

lemma twelve_hours_ago:
  "(of_int (864000000 - int i * 86400000) \<le> (820800000::rat)) = (1 \<le> i)"
  "((820800000::rat) < of_int (864000000 - int i * 86400000 + 86400000)) = (i \<le> 1)"
proof -
  have "(of_int (864000000 - int i * 86400000) \<le> (820800000::rat))
        = (864000000 - int i * 86400000 \<le> 820800000)"
    by (metis of_int_le_iff of_int_numeral)
  then show "(of_int (864000000 - int i * 86400000) \<le> (820800000::rat)) = (1 \<le> i)"
    by auto
  have "((820800000::rat) < of_int (864000000 - int i * 86400000 + 86400000))
        = (820800000 < 864000000 - int i * 86400000 + 86400000)"
    by (metis of_int_less_iff of_int_numeral)
  then show "((820800000::rat) < of_int (864000000 - int i * 86400000 + 86400000)) = (i \<le> 1)"
    by auto
qed

lemma fresh_gait_day:
  "filter (in_day (864000000 - int i * day_ms)) fresh_gait_table
     = (if i = 1 then fresh_gait_table else [])"
  using twelve_hours_ago [of i]
  by (auto simp: in_day_def fresh_gait_table_eq day_ms_def js_ge_def Let_def)

lemma fresh_posture_day:
  "filter (in_day (864000000 - int i * day_ms)) fresh_posture_table
     = (if i = 1 then fresh_posture_table else [])"
  using twelve_hours_ago [of i]
  by (auto simp: in_day_def fresh_posture_table_eq day_ms_def js_ge_def Let_def)

lemma fresh_gait_trend:
  "weeklyTrend (getGaitStats 864000000 fresh_gait_table) =
     [\<lparr>date = 345600000, symmetry = Num 0\<rparr>, \<lparr>date = 432000000, symmetry = Num 0\<rparr>,
      \<lparr>date = 518400000, symmetry = Num 0\<rparr>, \<lparr>date = 604800000, symmetry = Num 0\<rparr>,
      \<lparr>date = 691200000, symmetry = Num 0\<rparr>, \<lparr>date = 777600000, symmetry = Num 92\<rparr>,
      \<lparr>date = 864000000, symmetry = Num 0\<rparr>]"
proof -
  have ne: "fresh_gait_table \<noteq> []" by (simp add: fresh_gait_table_eq)
  have m: "js_round (gait_daySymmetry fresh_gait_table) = Num 92"
    by (simp add: gait_daySymmetry_def fresh_gait_table_eq reduce_sum_def num_of_nat_def
        normal_sample_def)
  have z: "js_round (gait_daySymmetry []) = Num 0"
    by (simp add: gait_daySymmetry_def)
  show ?thesis
    by (simp add: gait_weeklyTrend_entries [OF ne] fresh_gait_day m z del: js_round.simps)
      (simp add: day_ms_def)
qed

lemma fresh_posture_trend:
  "weeklyTrend (getPostureStats 864000000 fresh_posture_table) =
     [\<lparr>date = 345600000, posture_trend.score = Num 0\<rparr>,
      \<lparr>date = 432000000, posture_trend.score = Num 0\<rparr>,
      \<lparr>date = 518400000, posture_trend.score = Num 0\<rparr>,
      \<lparr>date = 604800000, posture_trend.score = Num 0\<rparr>,
      \<lparr>date = 691200000, posture_trend.score = Num 0\<rparr>,
      \<lparr>date = 777600000, posture_trend.score = Num 100\<rparr>,
      \<lparr>date = 864000000, posture_trend.score = Num 0\<rparr>]"
proof -
  have ne: "fresh_posture_table \<noteq> []" by (simp add: fresh_posture_table_eq)
  have m: "js_round (posture_dayScore fresh_posture_table) = Num 100"
    by (simp add: posture_dayScore_def fresh_posture_table_eq count_label_def ratio100_def
        num_of_nat_def)
  have z: "js_round (posture_dayScore []) = Num 0"
    by (simp add: posture_dayScore_def)
  show ?thesis
    by (simp add: posture_weeklyTrend_entries [OF ne] fresh_posture_day m z
          del: js_round.simps)
      (simp add: day_ms_def)
qed

text \<open>
  C4, as the code has it. For a non-empty list of rows the weekly trend of either query
  has exactly seven entries, one per day: the dates of the entries are 24 hours apart, in
  ascending order. For the empty list the trend is empty.
\<close>

theorem weeklyTrend_seven_entries:
  assumes "ps \<noteq> []" and "gs \<noteq> []"
  shows "length (weeklyTrend (getPostureStats now ps)) = 7 \<and>
         map date (weeklyTrend (getPostureStats now ps))
           = map (\<lambda>k. date (hd (weeklyTrend (getPostureStats now ps))) + int k * day_ms)
               [0, 1, 2, 3, 4, 5, 6] \<and>
         length (weeklyTrend (getGaitStats now gs)) = 7 \<and>
         map date (weeklyTrend (getGaitStats now gs))
           = map (\<lambda>k. date (hd (weeklyTrend (getGaitStats now gs))) + int k * day_ms)
               [0, 1, 2, 3, 4, 5, 6] \<and>
         weeklyTrend (getPostureStats now []) = [] \<and>
         weeklyTrend (getGaitStats now []) = []"
proof -
  have "weeklyTrend (getPostureStats now []) = []" and "weeklyTrend (getGaitStats now []) = []"
    by (simp_all add: getPostureStats_def getGaitStats_def)
  then show ?thesis
    by (simp add: posture_weeklyTrend_entries [OF assms(1)]
        gait_weeklyTrend_entries [OF assms(2)] del: js_round.simps)
qed

text \<open>The two tables with one row each, queried at ten days.\<close>

theorem weeklyTrend_seven_entries_witness:
  "fresh_posture_table \<noteq> [] \<and> fresh_gait_table \<noteq> [] \<and>
   length (weeklyTrend (getPostureStats 864000000 fresh_posture_table)) = 7 \<and>
   length (weeklyTrend (getGaitStats 864000000 fresh_gait_table)) = 7 \<and>
   map date (weeklyTrend (getPostureStats 864000000 fresh_posture_table))
     = [345600000, 432000000, 518400000, 604800000, 691200000, 777600000, 864000000] \<and>
   map date (weeklyTrend (getGaitStats 864000000 fresh_gait_table))
     = [345600000, 432000000, 518400000, 604800000, 691200000, 777600000, 864000000]"
proof -
  have p: "fresh_posture_table \<noteq> []" by (simp add: fresh_posture_table_eq)
  have g: "fresh_gait_table \<noteq> []" by (simp add: fresh_gait_table_eq)
  have hp: "date (hd (weeklyTrend (getPostureStats 864000000 fresh_posture_table))) = 345600000"
    by (simp add: fresh_posture_trend)
  have hg: "date (hd (weeklyTrend (getGaitStats 864000000 fresh_gait_table))) = 345600000"
    by (simp add: fresh_gait_trend)
  from weeklyTrend_seven_entries [OF p g, of 864000000] p g show ?thesis
    by (simp add: hp hg day_ms_def)
qed

lemma stale_recent: "recent_sessions 864000000 stale_table = stale_table"
  by (simp add: recent_sessions_def stale_table_eq day_ms_def js_gt_def)

lemma stale_day:
  assumes "i \<le> 6"
  shows "daySessions 864000000 stale_table i = []"
proof -
  from assms have "(302400000::int) < 864000000 - int i * 86400000" by simp
  then have "\<not> (of_int (864000000 - int i * 86400000) \<le> (302400000::rat))"
    by (metis not_le of_int_less_iff of_int_numeral)
  then show ?thesis
    by (simp add: daySessions_def in_day_def stale_table_eq day_ms_def js_ge_def Let_def)
qed

text \<open>
  C4 as stated fails twice. On the empty list the trend has no entry, not seven. And on
  the table with one row stored six and a half days before the query, that row is within
  the last seven days, yet none of the seven iterations counts it: their windows start
  six days before the query.
\<close>

theorem weeklyTrend_counterexample:
  "length (weeklyTrend (getPostureStats 864000000 [])) \<noteq> 7 \<and>
   length (weeklyTrend (getGaitStats 864000000 [])) \<noteq> 7 \<and>
   length (recent_sessions 864000000 stale_table) = 1 \<and>
   length (daySessions 864000000 (recent_sessions 864000000 stale_table) 6) +
   length (daySessions 864000000 (recent_sessions 864000000 stale_table) 5) +
   length (daySessions 864000000 (recent_sessions 864000000 stale_table) 4) +
   length (daySessions 864000000 (recent_sessions 864000000 stale_table) 3) +
   length (daySessions 864000000 (recent_sessions 864000000 stale_table) 2) +
   length (daySessions 864000000 (recent_sessions 864000000 stale_table) 1) +
   length (daySessions 864000000 (recent_sessions 864000000 stale_table) 0) = 0"
proof -
  have "length stale_table = 1" by (simp add: stale_table_eq)
  then show ?thesis
    by (simp add: stale_recent stale_day getPostureStats_def getGaitStats_def)
qed




section \<open>The rows of a report\<close>


















end
